theory Spec2Isabelle
  imports Complex_Main "HOL-Library.AList"
begin

section \<open>The Bot of \<^verbatim>\<open>src/bot/bot.js\<close>\<close>

text \<open>
  \<^verbatim>\<open>Bot\<close> extends the transport's \<^verbatim>\<open>Agent\<close>. Its handlers run to completion one after the
  other on a single event loop, so each handler is a function from the bot's state to an
  outcome: the state it leaves, the calls it made in order (transport requests, emitted
  events, log lines) and the exception it raised, if any. A completion callback of a
  transport request is a handler of its own, run later with the response.

  Conversation ids, participant ids and role names are strings; sequence numbers are
  natural numbers. Conversation ids are the platform's identifiers, never the name of a
  member that a JavaScript object inherits (such as \<^verbatim>\<open>toString\<close>), so that a lookup in
  \<^verbatim>\<open>myConversations\<close> finds an entry exactly when one was stored.
\<close>

subsection \<open>Data\<close>

datatype js_error = TypeError

datatype level = Silly | Info | Warn | Error

record participant =
  p_id :: string
  p_role :: "string option"

record conversationDetails =
  participants :: "participant list"

record originatorMetadata =
  om_role :: string
  om_clientProperties :: string

record ms_event =
  ev_type :: string
  ev_message :: string
  ev_sequenceList :: "nat list"

text \<open>\<^verbatim>\<open>result.lastContentEventNotification\<close> as the platform sends it.\<close>

record lastContentEventNotification =
  lc_sequence :: nat
  lc_serverTimestamp :: nat
  lc_originatorId :: string
  lc_originatorPId :: string
  lc_originatorMetadata :: originatorMetadata
  lc_event :: ms_event

text \<open>The reduced copy \<^verbatim>\<open>_updateMyConversation\<close> keeps: of the metadata only the role, of
  the event only its type.\<close>

record lastContentSummary =
  ls_sequence :: nat
  ls_serverTimestamp :: nat
  ls_originatorId :: string
  ls_originatorPId :: string
  ls_originatorMetadata_role :: string
  ls_event_type :: string

text \<open>The \<^verbatim>\<open>result\<close> of one change of a \<^verbatim>\<open>cqm.ExConversationChangeNotification\<close>.\<close>

record conv_result =
  convId :: string
  conversationDetails :: conversationDetails
  lastContentEventNotification :: "lastContentEventNotification option"

record conv_change =
  cc_type :: string
  cc_result :: conv_result

record conv_body =
  cb_changes :: "conv_change list"

text \<open>An entry of \<^verbatim>\<open>myConversations\<close>. \<^verbatim>\<open>_addToMyConversations\<close> stores the empty object
  \<^verbatim>\<open>{}\<close>, so every field may be undefined (\<open>None\<close>).\<close>

type_synonym profile = string

record tracked =
  t_convId :: "string option"
  t_conversationDetails :: "conversationDetails option"
  t_consumerProfile :: "profile option"
  t_lastContentEventNotification :: "lastContentSummary option"



text \<open>The record stored in \<^verbatim>\<open>respond\<close> and emitted with \<^verbatim>\<open>Bot.Event.Content\<close>.\<close>

record contentEvent =
  ce_dialogId :: string
  ce_sequence :: nat
  ce_message :: string
  ce_originatorMetadata :: originatorMetadata

record ring =
  ringId :: string
  ringState :: string

record routing_change =
  rc_type :: string
  rc_conversationId :: string
  rc_ringsDetails :: "ring list"

record routing_body =
  rb_changes :: "routing_change list"

record conversationField =
  cf_field :: string
  cf_type :: string
  cf_role :: string

datatype published =
    AcceptStatusEvent_READ "nat list"
  | ContentEvent_text string

datatype payload =
    Content contentEvent
  | Conversation conv_body

text \<open>What a handler does to the outside, in the order it does it. Delays are in
  milliseconds, as \<^verbatim>\<open>setTimeout\<close> takes them. JavaScript computes them in binary floating
  point; here they are exact rationals, so the rounding of each product is not part of
  the model.\<close>

datatype effect =
    Log level string
  | Emit string payload
  | GetUserProfile string
  | SubscribeMessagingEvents string
  | PublishEvent string published
  | UpdateRingState string string
  | UpdateConversationField string "conversationField list"
  | Reconnect
  | SetTimeout rat
  | ClearInterval

record bot =
  agentId :: string
  myConversations :: "string \<rightharpoonup> tracked"

record outcome =
  st :: bot
  trace :: "effect list"
  threw :: "js_error option"

subsection \<open>Constants\<close>


definition CONVERSATION_NOTIFICATION :: string where
  "CONVERSATION_NOTIFICATION = ''Bot.Event.Conversation''"




subsection \<open>Outbound operations\<close>

text \<open>\<^verbatim>\<open>acceptWaitingConversations\<close>: two nested \<^verbatim>\<open>forEach\<close> loops; one \<^verbatim>\<open>updateRingState\<close>
  request for a ring that is \<^verbatim>\<open>WAITING\<close> in a change of type \<^verbatim>\<open>UPSERT\<close>.\<close>

fun accept_rings :: "ring list \<Rightarrow> effect list" where
  "accept_rings [] = []"
| "accept_rings (r # rs) =
     (if ringState r = ''WAITING'' then [UpdateRingState (ringId r) ''ACCEPTED''] else [])
       @ accept_rings rs"

fun accept_changes :: "routing_change list \<Rightarrow> effect list" where
  "accept_changes [] = []"
| "accept_changes (c # cs) =
     (if rc_type c = ''UPSERT'' then accept_rings (rc_ringsDetails c) else [])
       @ accept_changes cs"

definition acceptWaitingConversations :: "routing_body \<Rightarrow> effect list" where
  "acceptWaitingConversations data = accept_changes (rb_changes data)"

text \<open>\<^verbatim>\<open>joinConversation\<close>. The regular expression \<^verbatim>\<open>/^(READER|MANAGER|ASSIGNED_AGENT)$/\<close> is
  anchored at both ends and has no flag, so it accepts exactly the three role names. The
  function returns \<^verbatim>\<open>false\<close> on a role it refuses and nothing (\<^verbatim>\<open>undefined\<close>) otherwise.\<close>

datatype js_return = Return_false | Return_undefined

definition falsy :: "js_return \<Rightarrow> bool" where
  "falsy v = (v = Return_false \<or> v = Return_undefined)"

definition role_test :: "string \<Rightarrow> bool" where
  "role_test role = (role \<in> set [''READER'', ''MANAGER'', ''ASSIGNED_AGENT''])"

definition joinConversation :: "string \<Rightarrow> string \<Rightarrow> bool \<Rightarrow> js_return \<times> effect list" where
  "joinConversation conversationId role announce =
     (if \<not> role_test role then (Return_false, [])
      else (Return_undefined,
            [UpdateConversationField conversationId
               [\<lparr>cf_field = ''ParticipantsChange'', cf_type = ''ADD'', cf_role = role\<rparr>]]))"

text \<open>The completion callback of that request; \<open>e\<close> is the error it is called with.\<close>

definition joinConversation_callback ::
    "string \<Rightarrow> string \<Rightarrow> bool \<Rightarrow> string option \<Rightarrow> effect list" where
  "joinConversation_callback conversationId role announce e =
     (case e of
        Some _ \<Rightarrow> [Log Error ''joinConversation'']
      | None \<Rightarrow>
          Log Info ''joinConversation: Joined conversation''
            # (if announce \<and> role \<noteq> ''READER''
               then [PublishEvent conversationId (ContentEvent_text (role @ '' joined''))]
               else []))"



subsection \<open>The list of my conversations\<close>

definition isInMyConversations :: "bot \<Rightarrow> string \<Rightarrow> bool" where
  "isInMyConversations s conversationId = (myConversations s conversationId \<noteq> None)"

text \<open>The empty object \<^verbatim>\<open>{}\<close>.\<close>

definition empty_tracked :: tracked where
  "empty_tracked =
     \<lparr>t_convId = None, t_conversationDetails = None, t_consumerProfile = None,
      t_lastContentEventNotification = None\<rparr>"

definition addToMyConversations :: "bot \<Rightarrow> string \<Rightarrow> bot" where
  "addToMyConversations s conversationId =
     s\<lparr>myConversations := (myConversations s)(conversationId \<mapsto> empty_tracked)\<rparr>"

definition summary :: "lastContentEventNotification \<Rightarrow> lastContentSummary" where
  "summary n =
     \<lparr>ls_sequence = lc_sequence n, ls_serverTimestamp = lc_serverTimestamp n,
      ls_originatorId = lc_originatorId n, ls_originatorPId = lc_originatorPId n,
      ls_originatorMetadata_role = om_role (lc_originatorMetadata n),
      ls_event_type = ev_type (lc_event n)\<rparr>"

definition updateMyConversation :: "bot \<Rightarrow> string \<Rightarrow> conv_result \<Rightarrow> bot" where
  "updateMyConversation s conversationId result =
     (let oldData = (case myConversations s conversationId of
                       None \<Rightarrow> empty_tracked
                     | Some t \<Rightarrow> t);
          newData = \<lparr>t_convId = Some (convId result),
                     t_conversationDetails = Some (conversationDetails result),
                     t_consumerProfile = t_consumerProfile oldData,
                     t_lastContentEventNotification =
                       (case lastContentEventNotification result of
                          None \<Rightarrow> None
                        | Some n \<Rightarrow> Some (summary n))\<rparr>
      in s\<lparr>myConversations := (myConversations s)(conversationId \<mapsto> newData)\<rparr>)"

subsection \<open>The consumer profile\<close>

text \<open>\<^verbatim>\<open>getConsumerProfile\<close> reads \<^verbatim>\<open>.id\<close> of the first participant whose role is
  \<^verbatim>\<open>CONSUMER\<close>, which raises when there is none, then sends \<^verbatim>\<open>getUserProfile\<close>. It has no
  \<^verbatim>\<open>return\<close> statement: the value the caller gets is \<^verbatim>\<open>undefined\<close> (\<open>None\<close>).\<close>

definition getConsumerProfile ::
    "string \<Rightarrow> conversationDetails \<Rightarrow> js_error + (profile option \<times> effect list)" where
  "getConsumerProfile conversationId details =
     (case filter (\<lambda>p. p_role p = Some ''CONSUMER'') (participants details) of
        [] \<Rightarrow> Inl TypeError
      | consumer # _ \<Rightarrow> Inr (None, [GetUserProfile (p_id consumer)]))"

text \<open>The completion callback of \<^verbatim>\<open>getUserProfile\<close>, called with an error \<open>e\<close> or with the
  profile \<open>resp\<close>: it writes one log line in either case and touches nothing else.\<close>

definition getConsumerProfile_callback ::
    "bot \<Rightarrow> string \<Rightarrow> string option \<Rightarrow> profile \<Rightarrow> outcome" where
  "getConsumerProfile_callback s conversationId e resp =
     \<lparr>st = s,
      trace = (case e of
                 Some _ \<Rightarrow> [Log Error ''getConsumerProfile'']
               | None \<Rightarrow> [Log Info ''getConsumerProfile: conversation consumerProfile'']),
      threw = None\<rparr>"

text \<open>The assignment \<^verbatim>\<open>this.myConversations[id].consumerProfile = v\<close>.\<close>

definition assignConsumerProfile :: "bot \<Rightarrow> string \<Rightarrow> profile option \<Rightarrow> js_error + bot" where
  "assignConsumerProfile s conversationId v =
     (case myConversations s conversationId of
        None \<Rightarrow> Inl TypeError
      | Some t \<Rightarrow>
          Inr (s\<lparr>myConversations :=
                    (myConversations s)(conversationId \<mapsto> t\<lparr>t_consumerProfile := v\<rparr>)\<rparr>))"

subsection \<open>Conversation changes\<close>

text \<open>The body of the \<^verbatim>\<open>forEach\<close> of the \<^verbatim>\<open>cqm.ExConversationChangeNotification\<close> handler,
  for one change.\<close>

definition conv_change :: "bot \<Rightarrow> conv_change \<Rightarrow> outcome" where
  "conv_change s change =
     (let result = cc_result change;
          l0 = Log Silly ''cqm.ExConversationChangeNotification change''
      in if cc_type change = ''UPSERT'' then
           if \<not> isInMyConversations s (convId result) then
             (let s1 = addToMyConversations s (convId result);
                  l1 = Log Silly ''added to myConversations''
              in case getConsumerProfile (convId result) (conversationDetails result) of
                   Inl err \<Rightarrow> \<lparr>st = s1, trace = [l0, l1], threw = Some err\<rparr>
                 | Inr (v, calls) \<Rightarrow>
                     (case assignConsumerProfile s1 (convId result) v of
                        Inl err \<Rightarrow> \<lparr>st = s1, trace = [l0, l1] @ calls, threw = Some err\<rparr>
                      | Inr s2 \<Rightarrow>
                          \<lparr>st = updateMyConversation s2 (convId result) result,
                           trace = [l0, l1] @ calls
                                     @ [SubscribeMessagingEvents (convId result)],
                           threw = None\<rparr>))
           else \<lparr>st = updateMyConversation s (convId result) result, trace = [l0],
                 threw = None\<rparr>
         else if cc_type change = ''DELETE'' then
           \<lparr>st = s\<lparr>myConversations := (myConversations s)(convId result := None)\<rparr>,
            trace = [l0, Log Silly ''removed from myConversations''], threw = None\<rparr>
         else \<lparr>st = s, trace = [l0], threw = None\<rparr>)"

text \<open>The \<^verbatim>\<open>forEach\<close> itself: an exception leaves the loop, and the handler.\<close>

fun conv_changes :: "bot \<Rightarrow> conv_change list \<Rightarrow> outcome" where
  "conv_changes s [] = \<lparr>st = s, trace = [], threw = None\<rparr>"
| "conv_changes s (change # rest) =
     (let o1 = conv_change s change
      in case threw o1 of
           Some err \<Rightarrow> o1
         | None \<Rightarrow>
             (let o2 = conv_changes (st o1) rest
              in o2\<lparr>trace := trace o1 @ trace o2\<rparr>))"

definition cqm_handler :: "bot \<Rightarrow> conv_body \<Rightarrow> outcome" where
  "cqm_handler s body =
     (let o1 = conv_changes s (cb_changes body)
      in \<lparr>st = st o1,
          trace = Log Info ''cqm.ExConversationChangeNotification'' # trace o1
                    @ (case threw o1 of
                         Some err \<Rightarrow> []
                       | None \<Rightarrow> [Emit CONVERSATION_NOTIFICATION (Conversation body)]),
          threw = threw o1\<rparr>)"

text \<open>A session: \<^verbatim>\<open>init\<close> starts with no conversation; the notifications are handled in
  the order of delivery, until one raises.\<close>

definition init :: "string \<Rightarrow> bot" where
  "init aid = \<lparr>agentId = aid, myConversations = Map.empty\<rparr>"

fun cqm_run :: "bot \<Rightarrow> conv_body list \<Rightarrow> outcome" where
  "cqm_run s [] = \<lparr>st = s, trace = [], threw = None\<rparr>"
| "cqm_run s (body # rest) =
     (let o1 = cqm_handler s body
      in case threw o1 of
           Some err \<Rightarrow> o1
         | None \<Rightarrow>
             (let o2 = cqm_run (st o1) rest
              in o2\<lparr>trace := trace o1 @ trace o2\<rparr>))"

subsection \<open>Messaging events\<close>


definition respond_key :: "string \<Rightarrow> nat \<Rightarrow> string \<times> nat" where
  "respond_key dialogId sequence = (dialogId, sequence)"





subsection \<open>Reconnecting\<close>



section \<open>Reading a trace\<close>

text \<open>What the properties below count in the calls of a handler.\<close>

fun is_log :: "effect \<Rightarrow> bool" where
  "is_log (Log l m) = True"
| "is_log _ = False"






fun fetch_of :: "effect \<Rightarrow> string option" where
  "fetch_of (GetUserProfile userId) = Some userId"
| "fetch_of _ = None"

definition profile_fetches :: "effect list \<Rightarrow> string list" where
  "profile_fetches calls = List.map_filter fetch_of calls"







text \<open>The rings a routing batch holds in state \<^verbatim>\<open>WAITING\<close> inside a change of type
  \<^verbatim>\<open>UPSERT\<close>.\<close>

definition waiting_rings :: "routing_body \<Rightarrow> ring list" where
  "waiting_rings data =
     concat (map (\<lambda>c. if rc_type c = ''UPSERT''
                       then filter (\<lambda>r. ringState r = ''WAITING'') (rc_ringsDetails c)
                       else [])
                 (rb_changes data))"



definition consumers :: "conv_change \<Rightarrow> participant list" where
  "consumers change =
     filter (\<lambda>p. p_role p = Some ''CONSUMER'')
       (participants (conversationDetails (cc_result change)))"

definition upsert_of :: "string \<Rightarrow> conv_change \<Rightarrow> bool" where
  "upsert_of cid change = (cc_type change = ''UPSERT'' \<and> convId (cc_result change) = cid)"

definition delete_of :: "string \<Rightarrow> conv_change \<Rightarrow> bool" where
  "delete_of cid change = (cc_type change = ''DELETE'' \<and> convId (cc_result change) = cid)"

text \<open>A history of changes holds an upsert of the conversation that no delete of it
  follows.\<close>

definition upserted_not_deleted :: "string \<Rightarrow> conv_change list \<Rightarrow> bool" where
  "upserted_not_deleted cid changes =
     (\<exists>pre u post. changes = pre @ u # post \<and> upsert_of cid u
                   \<and> (\<forall>d\<in>set post. \<not> delete_of cid d))"



section \<open>A session to run\<close>

text \<open>The bot \<^verbatim>\<open>bot\<close> is the assigned agent of conversation \<^verbatim>\<open>c1\<close>, opened by the consumer
  \<^verbatim>\<open>u1\<close>. Conversation \<^verbatim>\<open>c2\<close> lists no consumer.\<close>

definition details1 :: conversationDetails where
  "details1 =
     \<lparr>participants = [\<lparr>p_id = ''u1'', p_role = Some ''CONSUMER''\<rparr>,
                      \<lparr>p_id = ''bot'', p_role = Some ''ASSIGNED_AGENT''\<rparr>]\<rparr>"

definition details2 :: conversationDetails where
  "details2 = \<lparr>participants = [\<lparr>p_id = ''bot'', p_role = Some ''MANAGER''\<rparr>]\<rparr>"

definition upsert1 :: conv_change where
  "upsert1 =
     \<lparr>cc_type = ''UPSERT'',
      cc_result = \<lparr>convId = ''c1'', conversationDetails = details1,
                   lastContentEventNotification = None\<rparr>\<rparr>"


definition upsert2 :: conv_change where
  "upsert2 =
     \<lparr>cc_type = ''UPSERT'',
      cc_result = \<lparr>convId = ''c2'', conversationDetails = details2,
                   lastContentEventNotification = None\<rparr>\<rparr>"

text \<open>The state after the first notification of \<^verbatim>\<open>c1\<close>.\<close>

definition bot1 :: bot where
  "bot1 = st (cqm_handler (init ''bot'') \<lparr>cb_changes = [upsert1]\<rparr>)"



text \<open>No tracked conversation has a consumer profile.\<close>

definition no_profile :: "bot \<Rightarrow> bool" where
  "no_profile s = (\<forall>cid t. myConversations s cid = Some t \<longrightarrow> t_consumerProfile t = None)"

text \<open>Every tracked conversation has its details.\<close>

definition has_details :: "bot \<Rightarrow> bool" where
  "has_details s =
     (\<forall>cid t. myConversations s cid = Some t \<longrightarrow> t_conversationDetails t \<noteq> None)"

section \<open>Properties\<close>

subsection \<open>Accepting rings\<close>

lemma accept_rings_eq:
  "accept_rings rs =
     map (\<lambda>r. UpdateRingState (ringId r) ''ACCEPTED'') (filter (\<lambda>r. ringState r = ''WAITING'') rs)"
  by (induction rs) simp_all

text \<open>
  Claim C8. For every routing batch, the calls of \<^verbatim>\<open>acceptWaitingConversations\<close> are
  exactly one \<^verbatim>\<open>updateRingState\<close> request to \<^verbatim>\<open>ACCEPTED\<close> for each ring that is \<^verbatim>\<open>WAITING\<close>
  inside a change of type \<^verbatim>\<open>UPSERT\<close>, in the order of the batch, and nothing else: no call
  for a ring in another state or in a change of another type.
\<close>

theorem acceptWaitingConversations_waiting_upserts:
  "acceptWaitingConversations data =
     map (\<lambda>r. UpdateRingState (ringId r) ''ACCEPTED'') (waiting_rings data)"
proof -
  have "accept_changes cs =
          map (\<lambda>r. UpdateRingState (ringId r) ''ACCEPTED'')
            (concat (map (\<lambda>c. if rc_type c = ''UPSERT''
                               then filter (\<lambda>r. ringState r = ''WAITING'') (rc_ringsDetails c)
                               else []) cs))" for cs
    by (induction cs) (simp_all add: accept_rings_eq)
  then show ?thesis
    by (simp add: acceptWaitingConversations_def waiting_rings_def)
qed

subsection \<open>Joining with a role that is not allowed\<close>

text \<open>
  Claim C7. For every conversation id and every role other than \<^verbatim>\<open>READER\<close>, \<^verbatim>\<open>MANAGER\<close>
  and \<^verbatim>\<open>ASSIGNED_AGENT\<close>, \<^verbatim>\<open>joinConversation\<close> makes no call at all and returns \<^verbatim>\<open>false\<close>,
  a falsy value.
\<close>

theorem joinConversation_invalid_role:
  assumes "role \<notin> {''READER'', ''MANAGER'', ''ASSIGNED_AGENT''}"
  shows "joinConversation conversationId role announce = (Return_false, [])
         \<and> falsy (fst (joinConversation conversationId role announce))"
  using assms by (simp add: joinConversation_def role_test_def falsy_def)

theorem joinConversation_invalid_role_witness:
  "''HACKER'' \<notin> {''READER'', ''MANAGER'', ''ASSIGNED_AGENT''}
   \<and> joinConversation ''c1'' ''HACKER'' True = (Return_false, [])
   \<and> falsy (fst (joinConversation ''c1'' ''HACKER'' True))"
proof -
  have h: "''HACKER'' \<notin> {''READER'', ''MANAGER'', ''ASSIGNED_AGENT''}" by simp
  show ?thesis using h joinConversation_invalid_role [OF h, of "''c1''" True] by (simp add: falsy_def)
qed

subsection \<open>The reconnect sequence\<close>







subsection \<open>The pending replies of a messaging notification\<close>


lemma respond_key_eq [simp]: "respond_key d a = respond_key d b \<longleftrightarrow> a = b"
  by (simp add: respond_key_def)

lemma respond_key_image [simp]: "respond_key d q \<in> respond_key d ` A \<longleftrightarrow> q \<in> A"
  by (auto simp: respond_key_def)



















subsection \<open>What the messaging handler emits\<close>














text \<open>The session of the examples.\<close>

lemma bot1_state:
  "agentId bot1 = ''bot''"
  "myConversations bot1 =
     [''c1'' \<mapsto> \<lparr>t_convId = Some ''c1'', t_conversationDetails = Some details1,
                  t_consumerProfile = None, t_lastContentEventNotification = None\<rparr>]"
  by (simp_all add: bot1_def cqm_handler_def conv_change_def Let_def init_def upsert1_def
                    details1_def isInMyConversations_def addToMyConversations_def
                    getConsumerProfile_def assignConsumerProfile_def updateMyConversation_def
                    empty_tracked_def)










subsection \<open>Upserts\<close>

text \<open>The three ways an upsert goes: the first one of a conversation with a consumer, the
  first one of a conversation without, and a later one.\<close>

lemma conv_change_first_upsert:
  assumes "cc_type c = ''UPSERT''"
    and "\<not> isInMyConversations s (convId (cc_result c))"
    and "consumers c = consumer # others"
  shows "conv_change s c =
           \<lparr>st = updateMyConversation (addToMyConversations s (convId (cc_result c)))
                   (convId (cc_result c)) (cc_result c),
            trace = [Log Silly ''cqm.ExConversationChangeNotification change'',
                     Log Silly ''added to myConversations'',
                     GetUserProfile (p_id consumer),
                     SubscribeMessagingEvents (convId (cc_result c))],
            threw = None\<rparr>"
proof -
  let ?cid = "convId (cc_result c)"
  let ?s1 = "addToMyConversations s ?cid"
  have g: "getConsumerProfile ?cid (conversationDetails (cc_result c)) =
             Inr (None, [GetUserProfile (p_id consumer)])"
    using assms(3) by (simp add: getConsumerProfile_def consumers_def)
  have a: "assignConsumerProfile ?s1 ?cid None = Inr ?s1"
    by (simp add: assignConsumerProfile_def addToMyConversations_def empty_tracked_def)
  show ?thesis
    using assms(1,2) by (simp add: conv_change_def Let_def g a)
qed

lemma conv_change_no_consumer:
  assumes "cc_type c = ''UPSERT''"
    and "\<not> isInMyConversations s (convId (cc_result c))"
    and "consumers c = []"
  shows "conv_change s c =
           \<lparr>st = addToMyConversations s (convId (cc_result c)),
            trace = [Log Silly ''cqm.ExConversationChangeNotification change'',
                     Log Silly ''added to myConversations''],
            threw = Some TypeError\<rparr>"
proof -
  have "getConsumerProfile (convId (cc_result c)) (conversationDetails (cc_result c)) =
          Inl TypeError"
    using assms(3) by (simp add: getConsumerProfile_def consumers_def)
  then show ?thesis
    using assms(1,2) by (simp add: conv_change_def Let_def)
qed

lemma conv_change_later_upsert:
  assumes "cc_type c = ''UPSERT''"
    and "isInMyConversations s (convId (cc_result c))"
  shows "conv_change s c =
           \<lparr>st = updateMyConversation s (convId (cc_result c)) (cc_result c),
            trace = [Log Silly ''cqm.ExConversationChangeNotification change''],
            threw = None\<rparr>"
  using assms by (simp add: conv_change_def Let_def)

lemma updateMyConversation_entry:
  "myConversations (updateMyConversation s cid result) =
     (myConversations s)(cid \<mapsto>
        \<lparr>t_convId = Some (convId result),
         t_conversationDetails = Some (conversationDetails result),
         t_consumerProfile =
           (case myConversations s cid of None \<Rightarrow> None | Some t \<Rightarrow> t_consumerProfile t),
         t_lastContentEventNotification =
           map_option summary (lastContentEventNotification result)\<rparr>)"
  by (simp add: updateMyConversation_def Let_def empty_tracked_def
           split: option.split)

lemma consumers_examples:
  "consumers upsert1 = [\<lparr>p_id = ''u1'', p_role = Some ''CONSUMER''\<rparr>]"
  "consumers upsert2 = []"
  by (simp_all add: consumers_def upsert1_def upsert2_def details1_def details2_def)




text \<open>
  Claim C9. The first upsert of a conversation completes exactly when its details list a
  participant of role \<^verbatim>\<open>CONSUMER\<close>. With none, the lookup of the consumer's id raises a
  \<^verbatim>\<open>TypeError\<close>: the entry stays the empty object that was just added, the rest of the
  notification is not processed, and the handler leaves by the exception having made no
  call but log lines, not even the emission of the conversation notification.
\<close>

theorem upsert_without_consumer_raises:
  assumes "cc_type c = ''UPSERT''"
    and "\<not> isInMyConversations s (convId (cc_result c))"
    and "cb_changes body = c # rest"
  shows "threw (conv_change s c) = (if consumers c = [] then Some TypeError else None)
         \<and> (consumers c = [] \<longrightarrow>
              myConversations (st (conv_change s c)) (convId (cc_result c)) = Some empty_tracked
              \<and> threw (cqm_handler s body) = Some TypeError
              \<and> st (cqm_handler s body) = st (conv_change s c)
              \<and> list_all is_log (trace (cqm_handler s body)))"
proof (intro conjI impI)
  show "threw (conv_change s c) = (if consumers c = [] then Some TypeError else None)"
  proof (cases "consumers c")
    case Nil
    then show ?thesis using conv_change_no_consumer [OF assms(1,2)] by simp
  next
    case (Cons consumer others)
    then show ?thesis using conv_change_first_upsert [OF assms(1,2)] by simp
  qed
next
  assume "consumers c = []"
  then have raised: "conv_change s c =
         \<lparr>st = addToMyConversations s (convId (cc_result c)),
          trace = [Log Silly ''cqm.ExConversationChangeNotification change'',
                   Log Silly ''added to myConversations''],
          threw = Some TypeError\<rparr>"
    by (rule conv_change_no_consumer [OF assms(1,2)])
  then show "myConversations (st (conv_change s c)) (convId (cc_result c)) = Some empty_tracked"
    by (simp add: addToMyConversations_def)
  from raised assms(3) show "threw (cqm_handler s body) = Some TypeError"
    and "st (cqm_handler s body) = st (conv_change s c)"
    and "list_all is_log (trace (cqm_handler s body))"
    by (simp_all add: cqm_handler_def Let_def)
qed

theorem upsert_without_consumer_raises_witness:
  "consumers upsert2 = []
   \<and> threw (conv_change (init ''bot'') upsert2) = Some TypeError
   \<and> myConversations (st (conv_change (init ''bot'') upsert2)) ''c2'' = Some empty_tracked
   \<and> threw (cqm_handler (init ''bot'') \<lparr>cb_changes = [upsert2, upsert1]\<rparr>) = Some TypeError
   \<and> threw (conv_change (init ''bot'') upsert1) = None"
proof -
  have type: "cc_type upsert2 = ''UPSERT''" "cc_type upsert1 = ''UPSERT''"
    by (simp_all add: upsert2_def upsert1_def)
  have new: "\<not> isInMyConversations (init ''bot'') (convId (cc_result upsert2))"
    "\<not> isInMyConversations (init ''bot'') (convId (cc_result upsert1))"
    by (simp_all add: isInMyConversations_def init_def)
  have batch: "cb_changes \<lparr>cb_changes = [upsert2, upsert1]\<rparr> = upsert2 # [upsert1]"
    "cb_changes \<lparr>cb_changes = [upsert1]\<rparr> = upsert1 # []"
    by simp_all
  have id: "convId (cc_result upsert2) = ''c2''"
    by (simp add: upsert2_def)
  show ?thesis
    using upsert_without_consumer_raises [OF type(1) new(1) batch(1)]
      upsert_without_consumer_raises [OF type(2) new(2) batch(2)]
    by (simp add: consumers_examples id)
qed

subsection \<open>Which conversations are tracked\<close>



lemma upserted_not_deleted_Nil [simp]: "\<not> upserted_not_deleted cid []"
  by (simp add: upserted_not_deleted_def)



lemma conv_changes_completes:
  "threw (conv_changes s (c # cs)) = None \<longleftrightarrow>
     threw (conv_change s c) = None \<and> threw (conv_changes (st (conv_change s c)) cs) = None"
  by (simp add: Let_def split: option.split)

lemma conv_changes_state:
  "threw (conv_change s c) = None \<Longrightarrow>
   st (conv_changes s (c # cs)) = st (conv_changes (st (conv_change s c)) cs)"
  by (simp add: Let_def)


lemma cqm_handler_state:
  "st (cqm_handler s body) = st (conv_changes s (cb_changes body))"
  "threw (cqm_handler s body) = threw (conv_changes s (cb_changes body))"
  by (simp_all add: cqm_handler_def Let_def)

lemma cqm_run_completes:
  "threw (cqm_run s (b # bs)) = None \<longleftrightarrow>
     threw (cqm_handler s b) = None \<and> threw (cqm_run (st (cqm_handler s b)) bs) = None"
  by (simp add: Let_def split: option.split)

lemma cqm_run_state:
  "threw (cqm_handler s b) = None \<Longrightarrow>
   st (cqm_run s (b # bs)) = st (cqm_run (st (cqm_handler s b)) bs)"
  by (simp add: Let_def)





subsection \<open>The consumer profile is never stored\<close>

lemma conv_change_no_profile:
  assumes "no_profile s"
  shows "no_profile (st (conv_change s c))"
proof (cases "cc_type c = ''UPSERT''")
  case upsert: True
  show ?thesis
  proof (cases "isInMyConversations s (convId (cc_result c))")
    case True
    show ?thesis
      unfolding conv_change_later_upsert [OF upsert True]
      using assms
      by (auto simp: no_profile_def updateMyConversation_entry split: option.splits if_splits)
  next
    case False
    show ?thesis
    proof (cases "consumers c")
      case Nil
      show ?thesis
        unfolding conv_change_no_consumer [OF upsert False Nil]
        using assms
        by (auto simp: no_profile_def addToMyConversations_def empty_tracked_def
                 split: if_splits)
    next
      case (Cons consumer others)
      show ?thesis
        unfolding conv_change_first_upsert [OF upsert False Cons]
        using assms
        by (auto simp: no_profile_def updateMyConversation_entry addToMyConversations_def
                       empty_tracked_def split: if_splits)
    qed
  qed
next
  case False
  then show ?thesis
    using assms by (auto simp: conv_change_def Let_def no_profile_def split: if_splits)
qed

lemma getConsumerProfile_callback_state:
  "st (getConsumerProfile_callback s cid e resp) = s"
  by (simp add: getConsumerProfile_callback_def)

text \<open>
  Claim C1. The profile is requested on the first upsert of a conversation, without
  waiting for the answer, and a failed lookup is logged. But the profile is not stored
  when the lookup succeeds: \<^verbatim>\<open>getConsumerProfile\<close> returns nothing, so the handler assigns
  \<^verbatim>\<open>undefined\<close> to the field, and the callback that receives the profile only writes a log
  line. Below, the run: the first upsert of \<^verbatim>\<open>c1\<close> requests the profile of \<^verbatim>\<open>u1\<close>; the
  callback is called with the profile; the state is the same and the field of \<^verbatim>\<open>c1\<close> is
  undefined, also after the next upsert.
\<close>

theorem consumer_profile_not_stored:
  "profile_fetches (trace (cqm_handler (init ''bot'') \<lparr>cb_changes = [upsert1]\<rparr>)) = [''u1'']
   \<and> bot1 = st (cqm_handler (init ''bot'') \<lparr>cb_changes = [upsert1]\<rparr>)
   \<and> trace (getConsumerProfile_callback bot1 ''c1'' None ''the profile of u1'') =
       [Log Info ''getConsumerProfile: conversation consumerProfile'']
   \<and> st (getConsumerProfile_callback bot1 ''c1'' None ''the profile of u1'') = bot1
   \<and> map_option t_consumerProfile
       (myConversations (st (getConsumerProfile_callback bot1 ''c1'' None ''the profile of u1''))
          ''c1'') = Some None
   \<and> map_option t_consumerProfile
       (myConversations
          (st (conv_change
                 (st (getConsumerProfile_callback bot1 ''c1'' None ''the profile of u1''))
                 upsert1))
          ''c1'') = Some None"
proof -
  have fetch: "profile_fetches (trace (cqm_handler (init ''bot'') \<lparr>cb_changes = [upsert1]\<rparr>)) =
                 [''u1'']"
    by (simp add: cqm_handler_def conv_change_def Let_def init_def upsert1_def details1_def
                  isInMyConversations_def addToMyConversations_def getConsumerProfile_def
                  assignConsumerProfile_def empty_tracked_def profile_fetches_def
                  List.map_filter_def)
  have later: "conv_change bot1 upsert1 =
                 \<lparr>st = updateMyConversation bot1 ''c1'' (cc_result upsert1),
                  trace = [Log Silly ''cqm.ExConversationChangeNotification change''],
                  threw = None\<rparr>"
    using conv_change_later_upsert [of upsert1 bot1]
    by (simp add: upsert1_def isInMyConversations_def bot1_state)
  show ?thesis
    using fetch
    by (simp add: getConsumerProfile_callback_def later updateMyConversation_entry bot1_state)
       (simp add: bot1_def)
qed

subsection \<open>The entries of a session that completed\<close>

text \<open>The messaging handler reads the details of the tracked conversation. An entry lacks
  them only between \<^verbatim>\<open>_addToMyConversations\<close> and \<^verbatim>\<open>_updateMyConversation\<close>, that is, when the
  upsert raised in between: in a session whose handlers all completed, every entry has
  its details.\<close>

lemma conv_change_has_details:
  assumes "has_details s" and "threw (conv_change s c) = None"
  shows "has_details (st (conv_change s c))"
proof (cases "cc_type c = ''UPSERT''")
  case upsert: True
  show ?thesis
  proof (cases "isInMyConversations s (convId (cc_result c))")
    case True
    show ?thesis
      unfolding conv_change_later_upsert [OF upsert True]
      using assms(1)
      by (auto simp: has_details_def updateMyConversation_entry split: if_splits)
  next
    case False
    show ?thesis
    proof (cases "consumers c")
      case Nil
      with assms(2) show ?thesis
        using conv_change_no_consumer [OF upsert False Nil] by simp
    next
      case (Cons consumer others)
      show ?thesis
        unfolding conv_change_first_upsert [OF upsert False Cons]
        using assms(1)
        by (auto simp: has_details_def updateMyConversation_entry addToMyConversations_def
                 split: if_splits)
    qed
  qed
next
  case False
  then show ?thesis
    using assms(1) by (auto simp: conv_change_def Let_def has_details_def split: if_splits)
qed

lemma conv_changes_has_details:
  "has_details s \<Longrightarrow> threw (conv_changes s cs) = None \<Longrightarrow>
   has_details (st (conv_changes s cs))"
proof (induction cs arbitrary: s)
  case Nil
  then show ?case by simp
next
  case (Cons c cs)
  from Cons.prems(2) have c: "threw (conv_change s c) = None"
    and cs: "threw (conv_changes (st (conv_change s c)) cs) = None"
    by (simp_all only: conv_changes_completes)
  have "has_details (st (conv_change s c))"
    using Cons.prems(1) c by (rule conv_change_has_details)
  then have "has_details (st (conv_changes (st (conv_change s c)) cs))"
    using cs by (rule Cons.IH)
  then show ?case
    by (simp only: conv_changes_state [OF c])
qed

lemma cqm_run_has_details:
  "has_details s \<Longrightarrow> threw (cqm_run s bodies) = None \<Longrightarrow>
   has_details (st (cqm_run s bodies))"
proof (induction bodies arbitrary: s)
  case Nil
  then show ?case by simp
next
  case (Cons b bs)
  from Cons.prems(2) have b: "threw (cqm_handler s b) = None"
    and bs: "threw (cqm_run (st (cqm_handler s b)) bs) = None"
    by (simp_all only: cqm_run_completes)
  have "has_details (st (cqm_handler s b))"
    using Cons.prems(1) b unfolding cqm_handler_state by (rule conv_changes_has_details)
  then have "has_details (st (cqm_run (st (cqm_handler s b)) bs))"
    using bs by (rule Cons.IH)
  then show ?case
    by (simp only: cqm_run_state [OF b])
qed

lemma completed_session_has_details:
  assumes "threw (cqm_run (init aid) bodies) = None"
    and "myConversations (st (cqm_run (init aid) bodies)) cid = Some t"
  shows "\<exists>details. t_conversationDetails t = Some details"
proof -
  have "has_details (init aid)"
    by (simp add: has_details_def init_def)
  then have "has_details (st (cqm_run (init aid) bodies))"
    using assms(1) by (rule cqm_run_has_details)
  with assms(2) show ?thesis
    by (auto simp: has_details_def)
qed

end
